theory Spec2Isabelle
  imports Complex_Main
begin

section \<open>JavaScript strings and numbers\<close>

text \<open>
  Strings are modelled as lists of code units below 256 (\<open>string\<close>); the pictographs
  that prefix the console messages of the sources are left out of the literals.
  \<open>String.prototype.trim\<close> strips the white space of ECMAScript; in the modelled range
  these are TAB, LF, VT, FF, CR, SPACE and NBSP.
\<close>

definition is_js_space :: "char \<Rightarrow> bool" where
  "is_js_space c \<longleftrightarrow>
     c \<in> set [CHR 0x09, CHR 0x0A, CHR 0x0B, CHR 0x0C, CHR 0x0D, CHR 0x20, CHR 0xA0]"

definition js_trim :: "string \<Rightarrow> string" where
  "js_trim t = rev (dropWhile is_js_space (rev (dropWhile is_js_space t)))"

definition dq :: string where
  "dq = [CHR 0x22]"

definition startsWith :: "string \<Rightarrow> string \<Rightarrow> bool" where
  "startsWith t p \<longleftrightarrow> take (length p) t = p"

fun includes_str :: "string \<Rightarrow> string \<Rightarrow> bool" where
  "includes_str [] p = (p = [])"
| "includes_str (c # cs) p = (startsWith (c # cs) p \<or> includes_str cs p)"

text \<open>\<open>Number.prototype.toString\<close> on an integer, and \<open>padStart(2, '0')\<close>.\<close>

definition digit_char :: "nat \<Rightarrow> char" where
  "digit_char d = char_of (48 + d)"

fun nat_toString :: "nat \<Rightarrow> string" where
  "nat_toString n = (if n < 10 then [digit_char n] else nat_toString (n div 10) @ [digit_char (n mod 10)])"

declare nat_toString.simps [simp del]

definition toString :: "int \<Rightarrow> string" where
  "toString k = (if k < 0 then CHR ''-'' # nat_toString (nat (- k)) else nat_toString (nat k))"

definition padStart2 :: "string \<Rightarrow> string" where
  "padStart2 t = replicate (2 - length t) CHR ''0'' @ t"

text \<open>The remainder operator \<open>%\<close> of JavaScript takes the sign of the dividend.\<close>

definition js_rem :: "int \<Rightarrow> int \<Rightarrow> int" where
  "js_rem a b = sgn a * (\<bar>a\<bar> mod \<bar>b\<bar>)"

section \<open>The voice call system (voice-call.js)\<close>

subsection \<open>Data\<close>

datatype level = LLog | LWarn | LError

datatype js_error = TypeError | InvalidStateError

text \<open>
  A handler either returns or throws; the state reached when the exception is thrown is
  kept, since the effects before the throw persist.
\<close>

datatype 'a outcome = Returns 'a | Throws js_error 'a

primrec state_of :: "'a outcome \<Rightarrow> 'a" where
  "state_of (Returns s) = s"
| "state_of (Throws e s) = s"

record track =
  enabled :: bool
  ended :: bool

type_synonym media_stream = "track list"

record audio_context =
  closed :: bool
  source_stream :: nat

record voice =
  v_name :: string
  v_lang :: string

record utterance =
  u_text :: string
  u_rate :: rat
  u_pitch :: rat
  u_volume :: rat
  u_lang :: string
  u_voice :: "voice option"

record voice_settings =
  rate :: rat
  pitch :: rat
  autoSpeak :: bool
  language :: string

record message =
  msg_role :: string
  msg_text :: string
  msg_time :: int

record message_div =
  div_class :: string
  bubble_html :: string
  time_stamp :: int

text \<open>A status line of the page: the text of its \<open>span\<close> and the class of its dot, where present.\<close>

record status_el =
  span_text :: "string option"
  dot_class :: "string option"

text \<open>A button of the call controls: the icon and the label inside it, and its inline style.\<close>

record button_el =
  btn_icon :: string
  btn_text :: string
  btn_background :: string
  btn_color :: string

datatype callback = CbStartCall | CbSpeak string | CbRecognitionRetry | CbScroll | CbLoadVoices

datatype interval_callback = CbKeepAlive | CbTimerTick

text \<open>
  Who waits for an answer of \<open>getUserMedia\<close>: a \<open>startCall\<close> suspended at its \<open>await\<close>, or
  a \<open>requestMicrophonePermission\<close> that the grant button called on its own.
\<close>

datatype awaiting = AwaitingStartCall | AwaitingPermission

text \<open>What \<open>/api/health\<close> comes back with: a failure, or \<open>rag_ready\<close> and \<open>vector_count\<close>.\<close>

datatype health = HealthFailed | HealthData bool "nat option"

datatype outbound = VoiceInput string "string option" int | Ping

datatype recognizer_state = RecIdle | RecRunning | RecStopping

datatype gum = Granted | Denied

text \<open>
  The fields of \<open>VoiceCallSystem\<close>, the elements of the page it reads and writes, and the
  browser around it: the clock, the console, the media streams and audio contexts ever
  created (a handle is an index into these stores), the pending animation frames, the
  intervals (handle, period, callback) and timeouts (delay, callback), the requests to
  \<open>getUserMedia\<close> and to \<open>/api/health\<close> that are not answered yet, what was emitted on the
  socket, the recognizer and the voices. \<open>synthesis\<close> is the utterance queue of
  \<open>window.speechSynthesis\<close>, and \<open>None\<close> in a browser without it.
\<close>

record vcs =
  socket :: bool
  isConnected :: bool
  mediaStream :: "nat option"
  audioContext :: "nat option"
  analyser :: bool
  visualizerAnimationId :: "nat option"
  recognition :: bool
  isRecognizing :: bool
  synthesis :: "utterance list option"
  currentUtterance :: "utterance option"
  isCallActive :: bool
  isMuted :: bool
  isOnHold :: bool
  isRecording :: bool
  callStartTime :: "int option"
  timerInterval :: "nat option"
  sessionId :: "string option"
  messageHistory :: "message list"
  voiceSettings :: voice_settings
  callStatus :: "status_el option"
  ragStatus :: "status_el option"
  micStatus :: "status_el option"
  callTimerText :: string
  callTimerHidden :: bool
  preCallStateHidden :: bool
  activeCallStateHidden :: bool
  startCallBtnHidden :: bool
  endCallBtnHidden :: bool
  voiceControlsHidden :: bool
  speakingIndicatorHidden :: bool
  pushToTalkRecording :: bool
  permissionModalHidden :: bool
  muteBtn :: button_el
  holdBtn :: button_el
  conversationPane :: "message_div list"
  visualizerCanvas :: bool
  clock :: int
  console :: "(level \<times> string) list"
  streams :: "media_stream list"
  audioContexts :: "audio_context list"
  audioContextAvailable :: bool
  frameRequests :: "nat list"
  nextFrameId :: nat
  intervals :: "(nat \<times> int \<times> interval_callback) list"
  nextTimerId :: nat
  pendingUserMedia :: "awaiting list"
  healthPending :: bool
  timeouts :: "(int \<times> callback) list"
  emitted :: "outbound list"
  recognizer :: recognizer_state
  voices :: "voice list"

subsection \<open>Console, status lines, messages\<close>

definition console_log :: "string \<Rightarrow> vcs \<Rightarrow> vcs" where
  "console_log m s = s\<lparr>console := console s @ [(LLog, m)]\<rparr>"

definition console_warn :: "string \<Rightarrow> vcs \<Rightarrow> vcs" where
  "console_warn m s = s\<lparr>console := console s @ [(LWarn, m)]\<rparr>"

definition console_error :: "string \<Rightarrow> vcs \<Rightarrow> vcs" where
  "console_error m s = s\<lparr>console := console s @ [(LError, m)]\<rparr>"

text \<open>
  \<open>setTimeout\<close>, \<open>setInterval\<close> and \<open>clearInterval\<close>. The two kinds of timer draw their
  handles from one counter, which starts at 1; the handle of a timeout is never kept by
  the code, so the timeouts are listed without it.
\<close>

definition setTimeout :: "callback \<Rightarrow> int \<Rightarrow> vcs \<Rightarrow> vcs" where
  "setTimeout cb ms s = s\<lparr>timeouts := timeouts s @ [(ms, cb)], nextTimerId := Suc (nextTimerId s)\<rparr>"

definition setInterval :: "interval_callback \<Rightarrow> int \<Rightarrow> vcs \<Rightarrow> vcs" where
  "setInterval cb ms s =
     s\<lparr>intervals := intervals s @ [(nextTimerId s, ms, cb)], nextTimerId := Suc (nextTimerId s)\<rparr>"

definition clearInterval :: "nat \<Rightarrow> vcs \<Rightarrow> vcs" where
  "clearInterval i s = s\<lparr>intervals := filter (\<lambda>e. fst e \<noteq> i) (intervals s)\<rparr>"

text \<open>A numeric identifier is truthy unless it is \<open>null\<close> or 0.\<close>

definition truthy_id :: "nat option \<Rightarrow> bool" where
  "truthy_id x = (case x of None \<Rightarrow> False | Some i \<Rightarrow> i \<noteq> 0)"

definition set_status :: "string \<Rightarrow> string \<Rightarrow> status_el \<Rightarrow> status_el" where
  "set_status t d e =
     e\<lparr>span_text := map_option (\<lambda>_. t) (span_text e), dot_class := map_option (\<lambda>_. d) (dot_class e)\<rparr>"

definition updateStatus :: "string \<Rightarrow> string \<Rightarrow> vcs \<Rightarrow> vcs" where
  "updateStatus m st s =
     (case callStatus s of
        None \<Rightarrow> s
      | Some e \<Rightarrow>
          s\<lparr>callStatus := Some (set_status m
               (if st = ''active'' then ''status-dot bg-green-500'' else ''status-dot bg-slate-500'') e)\<rparr>)"

definition updateRAGStatus :: "string \<Rightarrow> bool \<Rightarrow> vcs \<Rightarrow> vcs" where
  "updateRAGStatus m c s =
     (case ragStatus s of
        None \<Rightarrow> s
      | Some e \<Rightarrow>
          s\<lparr>ragStatus := Some (set_status (''RAG: '' @ m)
               (''w-2 h-2 rounded-full '' @ (if c then ''bg-green-500'' else ''bg-slate-500'')) e)\<rparr>)"

definition updateMicStatus :: "string \<Rightarrow> bool \<Rightarrow> vcs \<Rightarrow> vcs" where
  "updateMicStatus m c s =
     (case micStatus s of
        None \<Rightarrow> s
      | Some e \<Rightarrow>
          s\<lparr>micStatus := Some (set_status (''Microphone: '' @ m)
               (''w-2 h-2 rounded-full '' @ (if c then ''bg-green-500'' else ''bg-red-500'')) e)\<rparr>)"

text \<open>
  \<open>addMessage(role, text, className)\<close>: a message element is appended to the conversation
  pane, the message is pushed on the history, and a scroll is scheduled.
\<close>

definition addMessage :: "string \<Rightarrow> string \<Rightarrow> string \<Rightarrow> vcs \<Rightarrow> vcs" where
  "addMessage r t cn s =
     setTimeout CbScroll 100
       (s\<lparr>conversationPane := conversationPane s @
             [\<lparr>div_class = ''message '' @ r @ '' '' @ cn, bubble_html = t, time_stamp = clock s\<rparr>],
          messageHistory := messageHistory s @ [\<lparr>msg_role = r, msg_text = t, msg_time = clock s\<rparr>]\<rparr>)"

subsection \<open>Microphone and audio visualisation\<close>

text \<open>
  One frame of the visualiser's \<open>draw\<close>: it does nothing unless a call is active, and
  otherwise requests the next frame and paints the canvas (the pixels are not modelled).
\<close>

definition draw :: "vcs \<Rightarrow> vcs" where
  "draw s =
     (if \<not> isCallActive s then s
      else s\<lparr>visualizerAnimationId := Some (nextFrameId s),
             frameRequests := frameRequests s @ [nextFrameId s],
             nextFrameId := Suc (nextFrameId s)\<rparr>)"

definition visualizeAudio :: "vcs \<Rightarrow> vcs" where
  "visualizeAudio s = (if \<not> visualizerCanvas s \<or> \<not> analyser s then s else draw s)"

text \<open>
  \<open>setupAudioVisualization(stream)\<close>: the constructor of the audio context throws where the
  browser has none, which the \<open>catch\<close> logs.
\<close>

definition setupAudioVisualization :: "nat \<Rightarrow> vcs \<Rightarrow> vcs" where
  "setupAudioVisualization stream s =
     (if \<not> visualizerCanvas s then s
      else if \<not> audioContextAvailable s then console_error ''Audio visualization error'' s
      else visualizeAudio (console_log ''Audio visualization setup''
             (s\<lparr>audioContexts := audioContexts s @ [\<lparr>closed = False, source_stream = stream\<rparr>],
                audioContext := Some (length (audioContexts s)),
                analyser := True\<rparr>)))"

text \<open>
  \<open>requestMicrophonePermission()\<close> runs up to its \<open>await\<close>: it logs, asks \<open>getUserMedia\<close>
  and is suspended; other handlers run until the answer comes. A granted request yields
  a new stream with one live audio track. \<open>requestMicrophonePermission_resumed\<close> is the rest
  of the function, run when the answer has come, with what it returns.
\<close>

definition live_track :: track where
  "live_track = \<lparr>enabled = True, ended = False\<rparr>"

definition requestMicrophonePermission :: "awaiting \<Rightarrow> vcs \<Rightarrow> vcs" where
  "requestMicrophonePermission who s =
     (console_log ''Requesting microphone permission...'' s)
       \<lparr>pendingUserMedia := pendingUserMedia s @ [who]\<rparr>"

definition requestMicrophonePermission_resumed :: "gum \<Rightarrow> vcs \<Rightarrow> bool \<times> vcs" where
  "requestMicrophonePermission_resumed g s =
     (case g of
        Granted \<Rightarrow>
          (let s2 = s\<lparr>streams := streams s @ [[live_track]], mediaStream := Some (length (streams s))\<rparr>;
               s3 = updateMicStatus ''Connected'' True s2;
               s4 = console_log ''Microphone access granted'' s3
           in (True, setupAudioVisualization (length (streams s)) s4))
      | Denied \<Rightarrow>
          (let s2 = console_error ''Microphone permission denied'' s;
               s3 = updateMicStatus ''Permission denied'' False s2
           in (False, addMessage ''assistant''
                 ''I need microphone access to hear you. Please allow microphone access in your browser settings.''
                 [] s3)))"

text \<open>The click handlers of \<open>grantPermissionBtn\<close> and \<open>cancelPermissionBtn\<close>.\<close>

definition grantPermissionClick :: "vcs \<Rightarrow> vcs" where
  "grantPermissionClick s =
     requestMicrophonePermission AwaitingPermission (s\<lparr>permissionModalHidden := True\<rparr>)"

definition cancelPermissionClick :: "vcs \<Rightarrow> vcs" where
  "cancelPermissionClick s = updateStatus ''Microphone access denied'' ''inactive'' (s\<lparr>permissionModalHidden := True\<rparr>)"

subsection \<open>Timer\<close>

definition format_elapsed :: "int \<Rightarrow> string" where
  "format_elapsed elapsed =
     (let minutes = elapsed div 60000;
          seconds = js_rem elapsed 60000 div 1000
      in padStart2 (toString minutes) @ '':'' @ padStart2 (toString seconds))"

text \<open>The callback of the interval: \<open>callStartTime\<close> is falsy when it is \<open>null\<close> or 0.\<close>

definition timerTick :: "vcs \<Rightarrow> vcs" where
  "timerTick s =
     (case callStartTime s of
        None \<Rightarrow> s
      | Some t0 \<Rightarrow> if t0 = 0 then s else s\<lparr>callTimerText := format_elapsed (clock s - t0)\<rparr>)"

definition startTimer :: "vcs \<Rightarrow> vcs" where
  "startTimer s = (setInterval CbTimerTick 1000 s)\<lparr>timerInterval := Some (nextTimerId s)\<rparr>"

subsection \<open>Text to speech\<close>

text \<open>
  The three replacements \<open>speak\<close> cleans its text with, each over the whole string from
  left to right: a \<open><\<close> is removed together with what follows it up to the next \<open>>\<close>, if
  there is one; every \<open>**\<close> is removed; three backquotes are removed together with what
  follows them up to the next three backquotes, if there are any.
\<close>

function remove_tags :: "string \<Rightarrow> string" where
  "remove_tags [] = []"
| "remove_tags (c # cs) =
     (if c = CHR ''<'' \<and> CHR ''>'' \<in> set cs
      then remove_tags (tl (dropWhile (\<lambda>x. x \<noteq> CHR ''>'') cs))
      else c # remove_tags cs)"
  by pat_completeness auto
termination
proof (relation "measure length")
  show "wf (measure length)" by simp
next
  fix c :: char and cs :: string
  have "length (tl (dropWhile (\<lambda>x. x \<noteq> CHR ''>'') cs)) \<le> length cs"
    using length_dropWhile_le [of "\<lambda>x. x \<noteq> CHR ''>''" cs] by simp
  then show "(tl (dropWhile (\<lambda>x. x \<noteq> CHR ''>'') cs), c # cs) \<in> measure length"
    by simp
next
  fix c :: char and cs :: string
  show "(cs, c # cs) \<in> measure length" by simp
qed

fun remove_bold :: "string \<Rightarrow> string" where
  "remove_bold (a # b # cs) =
     (if a = CHR ''*'' \<and> b = CHR ''*'' then remove_bold cs else a # remove_bold (b # cs))"
| "remove_bold cs = cs"

definition fence :: string where
  "fence = [CHR 0x60, CHR 0x60, CHR 0x60]"

fun after_fence :: "string \<Rightarrow> string option" where
  "after_fence [] = None"
| "after_fence (c # cs) = (if startsWith (c # cs) fence then Some (drop 2 cs) else after_fence cs)"

lemma after_fence_length: "after_fence t = Some r \<Longrightarrow> length r < length t"
  by (induction t) (auto split: if_splits)

function remove_code_blocks :: "string \<Rightarrow> string" where
  "remove_code_blocks [] = []"
| "remove_code_blocks (c # cs) =
     (if startsWith (c # cs) fence
      then (case after_fence (drop 2 cs) of
              Some r \<Rightarrow> remove_code_blocks r
            | None \<Rightarrow> c # remove_code_blocks cs)
      else c # remove_code_blocks cs)"
  by pat_completeness auto
termination
proof (relation "measure length")
  show "wf (measure length)" by simp
next
  fix c :: char and cs r :: string
  assume "after_fence (drop 2 cs) = Some r"
  then have "length r < length (drop 2 cs)" by (rule after_fence_length)
  then show "(r, c # cs) \<in> measure length" by simp
qed simp_all

definition cleanText :: "string \<Rightarrow> string" where
  "cleanText t = remove_code_blocks (remove_bold (remove_tags t))"

definition preferredVoice :: "voice list \<Rightarrow> voice option" where
  "preferredVoice vs =
     (case List.find (\<lambda>v. startsWith (v_lang v) ''en'' \<and>
                          (includes_str (v_name v) ''Female'' \<or> includes_str (v_name v) ''Samantha'')) vs of
        Some v \<Rightarrow> Some v
      | None \<Rightarrow> List.find (\<lambda>v. startsWith (v_lang v) ''en'') vs)"

text \<open>\<open>speechSynthesis.cancel()\<close> empties the utterance queue, \<open>speechSynthesis.speak(u)\<close> appends to it.\<close>

definition synthesis_cancel :: "vcs \<Rightarrow> vcs" where
  "synthesis_cancel s = s\<lparr>synthesis := map_option (\<lambda>_. []) (synthesis s)\<rparr>"

definition synthesis_speak :: "utterance \<Rightarrow> vcs \<Rightarrow> vcs" where
  "synthesis_speak u s = s\<lparr>synthesis := map_option (\<lambda>q. q @ [u]) (synthesis s)\<rparr>"

definition make_utterance :: "string \<Rightarrow> vcs \<Rightarrow> utterance" where
  "make_utterance t s =
     \<lparr>u_text = t, u_rate = rate (voiceSettings s), u_pitch = pitch (voiceSettings s), u_volume = 1,
      u_lang = language (voiceSettings s), u_voice = preferredVoice (voices s)\<rparr>"

definition speak :: "string \<Rightarrow> vcs \<Rightarrow> vcs" where
  "speak t s =
     (if synthesis s = None then console_error ''Text-to-speech not supported'' s
      else
        (let s1 = synthesis_cancel s in
         if js_trim (cleanText t) = [] then s1
         else
           (let s2 = console_log (''Speaking: '' @ take 50 (cleanText t) @ ''...'') s1;
                u = make_utterance (cleanText t) s2;
                s3 = (case u_voice u of
                        Some v \<Rightarrow> console_log (''Using voice: '' @ v_name v) s2
                      | None \<Rightarrow> s2)
            in synthesis_speak u (s3\<lparr>currentUtterance := Some u\<rparr>))))"

subsection \<open>Call management\<close>

definition welcome_text :: string where
  "welcome_text = ''Hello! I'' @ [CHR 0x27] @ ''m Musab AI, your Irish immigration assistant. How can I help you today?''"

text \<open>The part of \<open>startCall\<close> after the microphone check.\<close>

definition startCall_checked :: "vcs \<Rightarrow> vcs" where
  "startCall_checked s =
     (if \<not> isConnected s
      then setTimeout CbStartCall 2000 (addMessage ''assistant'' ''Connecting to server... Please wait.'' [] s)
      else
        (let s1 = s\<lparr>isCallActive := True, callStartTime := Some (clock s)\<rparr>;
             s2 = s1\<lparr>preCallStateHidden := True, activeCallStateHidden := False,
                     startCallBtnHidden := True, endCallBtnHidden := False,
                     voiceControlsHidden := False, callTimerHidden := False\<rparr>;
             s3 = startTimer s2;
             s4 = updateStatus ''Call active'' ''active'' s3;
             s5 = addMessage ''assistant'' welcome_text [] s4;
             s6 = (if autoSpeak (voiceSettings s5) then setTimeout (CbSpeak welcome_text) 500 s5 else s5)
         in console_log ''Call started'' s6))"

text \<open>
  \<open>startCall()\<close> as far as it runs when it is called. With a stream held it runs to its
  end. With none it shows the modal, asks for the microphone and is suspended at its
  \<open>await\<close>; \<open>startCall_resumed\<close> is what it does when \<open>getUserMedia\<close> has answered: a refusal
  ends the attempt, and otherwise the transport is looked at, as it is by then.
\<close>

definition startCall :: "vcs \<Rightarrow> vcs" where
  "startCall s =
     (let s0 = console_log ''Starting call...'' s in
      if mediaStream s0 = None
      then requestMicrophonePermission AwaitingStartCall (s0\<lparr>permissionModalHidden := False\<rparr>)
      else startCall_checked s0)"

definition startCall_resumed :: "gum \<Rightarrow> vcs \<Rightarrow> vcs" where
  "startCall_resumed g s =
     (case requestMicrophonePermission_resumed g s of
        (granted, s1) \<Rightarrow> if \<not> granted then s1 else startCall_checked s1)"

text \<open>\<open>recognition.stop()\<close> and \<open>recognition.start()\<close>; the latter throws while the recognizer runs.\<close>

definition recognition_stop :: "vcs \<Rightarrow> vcs" where
  "recognition_stop s = (if recognizer s = RecRunning then s\<lparr>recognizer := RecStopping\<rparr> else s)"

definition recognition_start :: "vcs \<Rightarrow> vcs outcome" where
  "recognition_start s =
     (if recognizer s = RecIdle then Returns (s\<lparr>recognizer := RecRunning\<rparr>) else Throws InvalidStateError s)"

definition stop_tracks :: "media_stream \<Rightarrow> media_stream" where
  "stop_tracks ts = map (\<lambda>t. t\<lparr>ended := True\<rparr>) ts"

text \<open>
  \<open>endCall()\<close>, block by block. Every track of the held stream is stopped and the handle
  dropped; the held audio context is closed and its handle dropped; the pending frame of
  the visualiser is cancelled; a running recognition is stopped; the timer's interval is
  cleared.
\<close>

definition stopAllAudio :: "vcs \<Rightarrow> vcs" where
  "stopAllAudio s =
     (case mediaStream s of
        None \<Rightarrow> s
      | Some h \<Rightarrow> s\<lparr>streams := (streams s)[h := stop_tracks (streams s ! h)], mediaStream := None\<rparr>)"

definition closeAudioContext :: "vcs \<Rightarrow> vcs" where
  "closeAudioContext s =
     (case audioContext s of
        None \<Rightarrow> s
      | Some c \<Rightarrow> s\<lparr>audioContexts := (audioContexts s)[c := (audioContexts s ! c)\<lparr>closed := True\<rparr>],
                    audioContext := None\<rparr>)"

definition cancelVisualizerFrame :: "vcs \<Rightarrow> vcs" where
  "cancelVisualizerFrame s =
     (if truthy_id (visualizerAnimationId s)
      then s\<lparr>frameRequests := removeAll (the (visualizerAnimationId s)) (frameRequests s)\<rparr>
      else s)"

definition stopRecognition :: "vcs \<Rightarrow> vcs" where
  "stopRecognition s = (if recognition s \<and> isRecognizing s then recognition_stop s else s)"

definition stopTimer :: "vcs \<Rightarrow> vcs" where
  "stopTimer s = (if truthy_id (timerInterval s) then clearInterval (the (timerInterval s)) s else s)"

text \<open>
  \<open>this.synthesis\<close> is \<open>undefined\<close> in a browser without speech synthesis, and
  \<open>this.synthesis.cancel()\<close> then throws a \<open>TypeError\<close> that nothing catches: the rest of
  \<open>endCall\<close> does not run.
\<close>

definition endCall :: "vcs \<Rightarrow> vcs outcome" where
  "endCall s =
     (let s0 = console_log ''Ending call...'' s;
          s1 = s0\<lparr>isCallActive := False\<rparr>;
          s2 = stopAllAudio s1;
          s3 = closeAudioContext s2;
          s4 = cancelVisualizerFrame s3;
          s5 = stopRecognition s4
      in if synthesis s5 = None then Throws TypeError s5
         else
           (let s6 = synthesis_cancel s5;
                s7 = stopTimer s6;
                s8 = s7\<lparr>activeCallStateHidden := True, preCallStateHidden := False,
                        endCallBtnHidden := True, startCallBtnHidden := False,
                        voiceControlsHidden := True, callTimerHidden := True\<rparr>;
                s9 = s8\<lparr>conversationPane := [], callTimerText := ''00:00'', messageHistory := []\<rparr>;
                s10 = s9\<lparr>isMuted := False, isOnHold := False\<rparr>;
                s11 = updateStatus ''Call ended'' ''inactive'' s10;
                s12 = updateMicStatus ''Not connected'' False s11
            in Returns (console_log ''Call ended'' s12)))"

text \<open>
  \<open>toggleMute()\<close> flips the flag, enables or disables the tracks of the held stream and
  restyles the button; \<open>toggleHold()\<close> flips the flag, restyles the button and, when the
  call goes on hold, says so in the conversation.
\<close>

definition toggleMute :: "vcs \<Rightarrow> vcs" where
  "toggleMute s =
     (let s1 = s\<lparr>isMuted := \<not> isMuted s\<rparr>;
          s2 = (case mediaStream s1 of
                  None \<Rightarrow> s1
                | Some h \<Rightarrow>
                    s1\<lparr>streams := (streams s1)[h := map (\<lambda>t. t\<lparr>enabled := \<not> isMuted s1\<rparr>) (streams s1 ! h)]\<rparr>)
      in if isMuted s2
         then console_log ''Muted''
                (s2\<lparr>muteBtn := \<lparr>btn_icon = ''mic-off'', btn_text = ''Unmute'',
                                btn_background = ''rgba(239, 68, 68, 0.2)'', btn_color = ''#ef4444''\<rparr>\<rparr>)
         else console_log ''Unmuted''
                (s2\<lparr>muteBtn := \<lparr>btn_icon = ''mic'', btn_text = ''Mute'',
                                btn_background = [], btn_color = []\<rparr>\<rparr>))"

definition toggleHold :: "vcs \<Rightarrow> vcs" where
  "toggleHold s =
     (let s1 = s\<lparr>isOnHold := \<not> isOnHold s\<rparr> in
      if isOnHold s1
      then console_log ''Call on hold''
             (addMessage ''assistant'' ''Call on hold. Click Resume when ready.'' []
                (s1\<lparr>holdBtn := (holdBtn s1)\<lparr>btn_icon := ''play'', btn_text := ''Resume'',
                                               btn_background := ''rgba(251, 191, 36, 0.2)''\<rparr>\<rparr>))
      else console_log ''Call resumed''
             (s1\<lparr>holdBtn := (holdBtn s1)\<lparr>btn_icon := ''pause'', btn_text := ''Hold'',
                                            btn_background := []\<rparr>\<rparr>))"

subsection \<open>Recording\<close>

definition stopRecordingUI :: "vcs \<Rightarrow> vcs" where
  "stopRecordingUI s = s\<lparr>isRecording := False, speakingIndicatorHidden := True, pushToTalkRecording := False\<rparr>"

definition startRecording :: "vcs \<Rightarrow> vcs" where
  "startRecording s =
     (if \<not> isCallActive s \<or> isMuted s \<or> isOnHold s \<or> isRecording s
      then console_log ''Cannot start recording'' s
      else if \<not> recognition s
      then addMessage ''assistant'' ''Speech recognition not available in this browser. Try Chrome or Edge.'' [] s
      else
        (let s1 = console_log ''Starting recording...'' s;
             s2 = s1\<lparr>isRecording := True, speakingIndicatorHidden := False, pushToTalkRecording := True\<rparr>
         in case recognition_start s2 of
              Returns s3 \<Rightarrow> s3
            | Throws e s3 \<Rightarrow>
                (let s4 = console_error ''Recognition start error'' s3 in
                 if e = InvalidStateError
                 then setTimeout CbRecognitionRetry 100 (recognition_stop s4)
                 else s4)))"

text \<open>The callback of the retry: a second failure is only logged.\<close>

definition recognitionRetry :: "vcs \<Rightarrow> vcs" where
  "recognitionRetry s =
     (case recognition_start s of
        Returns s1 \<Rightarrow> s1
      | Throws e s1 \<Rightarrow> console_error ''Retry failed'' s1)"

definition stopRecording :: "vcs \<Rightarrow> vcs" where
  "stopRecording s =
     (if \<not> isRecording s then s
      else
        (let s1 = console_log ''Stopping recording...'' s
         in stopRecordingUI (stopRecognition s1)))"

subsection \<open>Speech input and the handlers of the recognizer\<close>

definition loading_html :: string where
  "loading_html = ''<div class='' @ dq @ ''loading-dots'' @ dq @ ''><span></span><span></span><span></span></div>''"

definition handleSpeechInput :: "string \<Rightarrow> vcs \<Rightarrow> vcs" where
  "handleSpeechInput t s =
     (if t = [] \<or> js_trim t = [] then console_log ''Empty speech input'' s
      else
        (let s1 = console_log (''Processing speech input: '' @ t) s;
             s2 = addMessage ''user'' t [] s1
         in if socket s2 \<and> isConnected s2
            then
              (let s3 = s2\<lparr>emitted := emitted s2 @ [VoiceInput t (sessionId s2) (clock s2)]\<rparr>;
                   s4 = addMessage ''assistant'' loading_html ''loading'' s3
               in console_log ''Sent to server'' s4)
            else addMessage ''assistant'' ''Not connected to server. Please refresh the page.'' []
                   (console_error ''Socket not connected'' s2)))"

definition recognition_onstart :: "vcs \<Rightarrow> vcs" where
  "recognition_onstart s = (console_log ''Speech recognition started'' s)\<lparr>isRecognizing := True\<rparr>"

text \<open>The result handler logs the transcript (the confidence is left out) and hands it on.\<close>

definition recognition_onresult :: "string \<Rightarrow> vcs \<Rightarrow> vcs" where
  "recognition_onresult transcript s = handleSpeechInput transcript (console_log (''Recognized: '' @ transcript) s)"

definition recognition_onerror :: "string \<Rightarrow> vcs \<Rightarrow> vcs" where
  "recognition_onerror err s =
     (let s1 = console_error (''Speech recognition error: '' @ err) s;
          s2 = (if err = ''not-allowed'' \<or> err = ''permission-denied''
                then (updateMicStatus ''Permission denied'' False s1)\<lparr>permissionModalHidden := False\<rparr>
                else if err = ''no-speech'' then console_log ''No speech detected'' s1
                else if err = ''network''
                then addMessage ''assistant'' ''Network error. Please check your connection.'' [] s1
                else s1)
      in stopRecordingUI s2)"

definition recognition_onend :: "vcs \<Rightarrow> vcs" where
  "recognition_onend s = stopRecordingUI ((console_log ''Speech recognition ended'' s)\<lparr>isRecognizing := False\<rparr>)"

subsection \<open>Socket handlers\<close>

definition socket_onconnect :: "string \<Rightarrow> vcs \<Rightarrow> vcs" where
  "socket_onconnect sid s =
     updateRAGStatus ''Connected'' True ((console_log ''WebSocket connected'' s)\<lparr>isConnected := True, sessionId := Some sid\<rparr>)"

definition socket_ondisconnect :: "vcs \<Rightarrow> vcs" where
  "socket_ondisconnect s =
     updateRAGStatus ''Disconnected'' False ((console_log ''WebSocket disconnected'' s)\<lparr>isConnected := False\<rparr>)"

text \<open>The callback of the keep-alive interval that \<open>initializeSocket\<close> sets.\<close>

definition keepAlive :: "vcs \<Rightarrow> vcs" where
  "keepAlive s = (if isConnected s \<and> socket s then s\<lparr>emitted := emitted s @ [Ping]\<rparr> else s)"

subsection \<open>Start-up\<close>

text \<open>
  \<open>initializeSocket\<close> creates the socket, registers its handlers and sets the keep-alive
  interval; \<open>setupSpeechRecognition\<close> creates the recognizer where the browser has one;
  \<open>checkSystemStatus\<close> asks \<open>/api/health\<close> and, when the answer has come, writes the status
  line; \<open>loadVoices\<close> polls the voices every 100 ms until there are some, where the
  browser has speech synthesis.
\<close>

definition initializeSocket :: "vcs \<Rightarrow> vcs" where
  "initializeSocket s =
     setInterval CbKeepAlive 30000 ((console_log ''Connecting to WebSocket...'' s)\<lparr>socket := True\<rparr>)"

definition setupSpeechRecognition :: "bool \<Rightarrow> vcs \<Rightarrow> vcs" where
  "setupSpeechRecognition supported s =
     (if \<not> supported
      then updateMicStatus ''Not supported'' False
             (console_warn ''Speech recognition not supported in this browser'' s)
      else console_log ''Speech recognition initialized'' (s\<lparr>recognition := True\<rparr>))"

definition checkSystemStatus :: "vcs \<Rightarrow> vcs" where
  "checkSystemStatus s = s\<lparr>healthPending := True\<rparr>"

definition checkSystemStatus_resumed :: "health \<Rightarrow> vcs \<Rightarrow> vcs" where
  "checkSystemStatus_resumed a s =
     (case a of
        HealthFailed \<Rightarrow> updateRAGStatus ''Error'' False (console_error ''Health check failed'' s)
      | HealthData ready n \<Rightarrow>
          (let s1 = console_log ''System health'' s in
           if ready
           then updateRAGStatus (''Ready ('' @ nat_toString (case n of None \<Rightarrow> 0 | Some k \<Rightarrow> k) @ '' docs)'')
                  True s1
           else updateRAGStatus ''Not ready'' False s1))"

definition loadVoicesWhenReady :: "vcs \<Rightarrow> vcs" where
  "loadVoicesWhenReady s =
     (if voices s \<noteq> []
      then console_log (''Loaded '' @ nat_toString (length (voices s)) @ '' voices'') s
      else setTimeout CbLoadVoices 100 s)"

definition loadVoices :: "vcs \<Rightarrow> vcs" where
  "loadVoices s = (if synthesis s = None then s else loadVoicesWhenReady s)"

subsection \<open>Events\<close>

text \<open>
  The page is single-threaded: one handler runs at a time, triggered by a gesture of the
  user, by the socket, by the recognizer, by a timer or by the answer to a request that a
  suspended function waits for; \<open>Elapse\<close> moves the clock that \<open>Date.now()\<close> reads. An
  exception that escapes a handler is reported by the browser and the page goes on from
  the state reached. The settings dialogue and the replies of the backend to an utterance
  are not among the events.
\<close>

datatype event =
    StartCallClick
  | EndCallClick
  | MuteClick
  | HoldClick
  | GrantPermissionClick
  | CancelPermissionClick
  | PushToTalkDown
  | PushToTalkUp
  | SocketConnect string
  | SocketDisconnect
  | RecognitionStart
  | RecognitionResult string
  | RecognitionError string
  | RecognitionEnd
  | IntervalTick nat
  | TimeoutFires nat
  | UserMediaAnswers nat gum
  | HealthAnswers health
  | VoicesChanged "voice list"
  | Elapse int

definition run_callback :: "callback \<Rightarrow> vcs \<Rightarrow> vcs" where
  "run_callback cb s =
     (case cb of
        CbStartCall \<Rightarrow> startCall s
      | CbSpeak t \<Rightarrow> speak t s
      | CbRecognitionRetry \<Rightarrow> recognitionRetry s
      | CbScroll \<Rightarrow> s
      | CbLoadVoices \<Rightarrow> loadVoicesWhenReady s)"

definition run_interval :: "interval_callback \<Rightarrow> vcs \<Rightarrow> vcs" where
  "run_interval cb s = (case cb of CbKeepAlive \<Rightarrow> keepAlive s | CbTimerTick \<Rightarrow> timerTick s)"

text \<open>The answer of \<open>getUserMedia\<close> to the request at a place of the list resumes who waits for it.\<close>

definition userMediaAnswers :: "nat \<Rightarrow> gum \<Rightarrow> vcs \<Rightarrow> vcs" where
  "userMediaAnswers n g s =
     (if n < length (pendingUserMedia s)
      then
        (let s1 = s\<lparr>pendingUserMedia := take n (pendingUserMedia s) @ drop (Suc n) (pendingUserMedia s)\<rparr>
         in case pendingUserMedia s ! n of
              AwaitingStartCall \<Rightarrow> startCall_resumed g s1
            | AwaitingPermission \<Rightarrow> snd (requestMicrophonePermission_resumed g s1))
      else s)"

definition fire :: "event \<Rightarrow> vcs \<Rightarrow> vcs outcome" where
  "fire ev s =
     (case ev of
        StartCallClick \<Rightarrow> Returns (startCall s)
      | EndCallClick \<Rightarrow> endCall s
      | MuteClick \<Rightarrow> Returns (toggleMute s)
      | HoldClick \<Rightarrow> Returns (toggleHold s)
      | GrantPermissionClick \<Rightarrow> Returns (grantPermissionClick s)
      | CancelPermissionClick \<Rightarrow> Returns (cancelPermissionClick s)
      | PushToTalkDown \<Rightarrow> Returns (startRecording s)
      | PushToTalkUp \<Rightarrow> Returns (stopRecording s)
      | SocketConnect sid \<Rightarrow> Returns (socket_onconnect sid s)
      | SocketDisconnect \<Rightarrow> Returns (socket_ondisconnect s)
      | RecognitionStart \<Rightarrow> Returns (recognition_onstart s)
      | RecognitionResult t \<Rightarrow> Returns (recognition_onresult t s)
      | RecognitionError e \<Rightarrow> Returns (recognition_onerror e s)
      | RecognitionEnd \<Rightarrow> Returns (recognition_onend (s\<lparr>recognizer := RecIdle\<rparr>))
      | IntervalTick i \<Rightarrow>
          Returns (case map_of (intervals s) i of
                     None \<Rightarrow> s
                   | Some (ms, cb) \<Rightarrow> run_interval cb s)
      | TimeoutFires n \<Rightarrow>
          Returns (if n < length (timeouts s)
                   then run_callback (snd (timeouts s ! n))
                          (s\<lparr>timeouts := take n (timeouts s) @ drop (Suc n) (timeouts s)\<rparr>)
                   else s)
      | UserMediaAnswers n g \<Rightarrow> Returns (userMediaAnswers n g s)
      | HealthAnswers a \<Rightarrow>
          Returns (if healthPending s then checkSystemStatus_resumed a (s\<lparr>healthPending := False\<rparr>) else s)
      | VoicesChanged vs \<Rightarrow>
          Returns (if synthesis s = None then s else loadVoicesWhenReady (s\<lparr>voices := vs\<rparr>))
      | Elapse ms \<Rightarrow> Returns (s\<lparr>clock := clock s + ms\<rparr>))"

fun run :: "event list \<Rightarrow> vcs \<Rightarrow> vcs" where
  "run [] s = s"
| "run (ev # evs) s = run evs (state_of (fire ev s))"

text \<open>
  The state the constructor and \<open>init\<close> leave, in a browser described by which of speech
  recognition, speech synthesis, the visualiser canvas and the audio context it has. The
  markup of the page is not part of the sources: the call view starts as \<open>endCall\<close> leaves
  it, the status lines start empty.
\<close>

record browser =
  hasSpeechRecognition :: bool
  hasSpeechSynthesis :: bool
  hasVisualizerCanvas :: bool
  hasAudioContext :: bool
  installedVoices :: "voice list"
  startTime :: int

definition empty_status :: "status_el option" where
  "empty_status = Some \<lparr>span_text = Some [], dot_class = Some []\<rparr>"

definition constructed :: "browser \<Rightarrow> vcs" where
  "constructed b =
     \<lparr>socket = False, isConnected = False, mediaStream = None, audioContext = None,
      analyser = False, visualizerAnimationId = None, recognition = False,
      isRecognizing = False,
      synthesis = (if hasSpeechSynthesis b then Some [] else None),
      currentUtterance = None, isCallActive = False, isMuted = False, isOnHold = False,
      isRecording = False, callStartTime = None, timerInterval = None, sessionId = None,
      messageHistory = [],
      voiceSettings = \<lparr>rate = 1, pitch = 1, autoSpeak = True, language = ''en-US''\<rparr>,
      callStatus = empty_status, ragStatus = empty_status, micStatus = empty_status,
      callTimerText = ''00:00'', callTimerHidden = True, preCallStateHidden = False,
      activeCallStateHidden = True, startCallBtnHidden = False, endCallBtnHidden = True,
      voiceControlsHidden = True, speakingIndicatorHidden = True,
      pushToTalkRecording = False, permissionModalHidden = True,
      muteBtn = \<lparr>btn_icon = ''mic'', btn_text = ''Mute'', btn_background = [], btn_color = []\<rparr>,
      holdBtn = \<lparr>btn_icon = ''pause'', btn_text = ''Hold'', btn_background = [], btn_color = []\<rparr>,
      conversationPane = [],
      visualizerCanvas = hasVisualizerCanvas b, clock = startTime b, console = [],
      streams = [], audioContexts = [], audioContextAvailable = hasAudioContext b,
      frameRequests = [], nextFrameId = 1, intervals = [], nextTimerId = 1,
      pendingUserMedia = [], healthPending = False,
      timeouts = [], emitted = [], recognizer = RecIdle, voices = installedVoices b\<rparr>"

definition newVoiceCallSystem :: "browser \<Rightarrow> vcs" where
  "newVoiceCallSystem b =
     (let s0 = console_log ''Initializing Musab AI Voice System...'' (constructed b);
          s1 = initializeSocket s0;
          s2 = setupSpeechRecognition (hasSpeechRecognition b) s1;
          s3 = checkSystemStatus s2;
          s4 = loadVoices s3
      in console_log ''System initialized'' s4)"

section \<open>The ingestion form (add\_data.js)\<close>

record alert =
  alert_class :: string
  alert_icon :: string
  alert_text :: string

datatype form_callback = CbLoadStats | CbClearResponse

record request =
  url :: string
  http_method :: string
  body_data :: string

text \<open>
  The form: the value of \<open>dataInput\<close>, the submit button, the content of the response
  area, the requests sent with \<open>fetch\<close> and the pending timeouts.
\<close>

record ingest_form =
  dataInput :: string
  submitDisabled :: bool
  submitHtml :: string
  response :: "alert option"
  requests :: "request list"
  form_timeouts :: "(nat \<times> form_callback) list"

text \<open>
  What comes back: \<open>fetch\<close> or \<open>response.json()\<close> rejects with an error carrying a message,
  or the backend answers with \<open>response.ok\<close> and a JSON object whose fields \<open>nodes_added\<close>
  and \<open>error\<close> may be absent.
\<close>

record add_data_result =
  nodes_added :: "nat option"
  error :: "string option"

datatype fetch_result = Rejected string | Responded bool add_data_result

definition showMessage :: "string \<Rightarrow> string \<Rightarrow> ingest_form \<Rightarrow> ingest_form" where
  "showMessage t ty f =
     (let f1 = f\<lparr>response := Some
                 \<lparr>alert_class = (if ty = ''success''
                                  then ''bg-green-500/10 border-green-500/30 text-green-400''
                                  else ''bg-red-500/10 border-red-500/30 text-red-400''),
                  alert_icon = (if ty = ''success'' then ''check-circle'' else ''alert-circle''),
                  alert_text = t\<rparr>\<rparr>
      in if ty = ''success'' then f1\<lparr>form_timeouts := form_timeouts f1 @ [(5000, CbClearResponse)]\<rparr> else f1)"

definition too_short_message :: string where
  "too_short_message = ''Document is too short. Please provide at least 50 characters.''"

definition adding_html :: string where
  "adding_html = ''<i data-lucide='' @ dq @ ''loader'' @ dq @ '' class='' @ dq @
     ''w-5 h-5 inline mr-2 animate-spin'' @ dq @ ''></i>Adding...''"

definition add_document_html :: string where
  "add_document_html = ''<i data-lucide='' @ dq @ ''plus-circle'' @ dq @ '' class='' @ dq @
     ''w-5 h-5 inline mr-2'' @ dq @ ''></i>Add Document''"

definition render_nat :: "nat option \<Rightarrow> string" where
  "render_nat x = (case x of None \<Rightarrow> ''undefined'' | Some n \<Rightarrow> nat_toString n)"

definition render_str :: "string option \<Rightarrow> string" where
  "render_str x = (case x of None \<Rightarrow> ''undefined'' | Some t \<Rightarrow> t)"

text \<open>The \<open>try\<close> block of the submit handler, up to the \<open>finally\<close>.\<close>

definition submit_try :: "fetch_result \<Rightarrow> ingest_form \<Rightarrow> ingest_form" where
  "submit_try r f =
     (case r of
        Rejected m \<Rightarrow> showMessage (''Network Error: '' @ m) ''error'' f
      | Responded ok res \<Rightarrow>
          if ok
          then (let f1 = showMessage (''Success! Added '' @ render_nat (nodes_added res) @
                                       '' document chunk(s) to knowledge base.'') ''success'' f;
                    f2 = f1\<lparr>dataInput := []\<rparr>
                in f2\<lparr>form_timeouts := form_timeouts f2 @ [(1000, CbLoadStats)]\<rparr>)
          else showMessage (''Error: '' @ render_str (error res)) ''error'' f)"

text \<open>The submit handler, with what the request comes back with as a parameter.\<close>

definition submit :: "fetch_result \<Rightarrow> ingest_form \<Rightarrow> ingest_form" where
  "submit r f =
     (let data = js_trim (dataInput f) in
      if data = [] then showMessage ''Please enter some document content.'' ''error'' f
      else if length data < 50 then showMessage too_short_message ''error'' f
      else
        (let f1 = f\<lparr>submitDisabled := True, submitHtml := adding_html\<rparr>;
             f2 = f1\<lparr>requests := requests f1 @
                     [\<lparr>url = ''/api/add_data'', http_method = ''POST'', body_data = data\<rparr>]\<rparr>;
             f3 = submit_try r f2
         in f3\<lparr>submitDisabled := False, submitHtml := add_document_html\<rparr>))"

section \<open>What the properties speak of\<close>



text \<open>The utterances the synthesizer holds, spoken or pending; none where there is no synthesizer.\<close>

definition outstanding :: "vcs \<Rightarrow> utterance list" where
  "outstanding s = (case synthesis s of None \<Rightarrow> [] | Some q \<Rightarrow> q)"

text \<open>The number of media streams that still have a live track: each holds the microphone.\<close>

definition live_streams :: "vcs \<Rightarrow> nat" where
  "live_streams s = length (filter (list_ex (\<lambda>t. \<not> ended t)) (streams s))"

subsection \<open>Scenarios\<close>

definition full_browser :: browser where
  "full_browser =
     \<lparr>hasSpeechRecognition = True, hasSpeechSynthesis = True, hasVisualizerCanvas = True,
      hasAudioContext = True, installedVoices = [\<lparr>v_name = ''Samantha'', v_lang = ''en-US''\<rparr>],
      startTime = 1700000000000\<rparr>"

text \<open>A browser with neither of the speech interfaces, as an embedded web view may be.\<close>

definition no_synthesis_browser :: browser where
  "no_synthesis_browser =
     full_browser\<lparr>hasSpeechRecognition := False, hasSpeechSynthesis := False, installedVoices := []\<rparr>"

text \<open>
  The page just loaded; the socket connected; a call started, with the microphone granted
  when it was asked for.
\<close>

definition idle_system :: vcs where
  "idle_system = newVoiceCallSystem full_browser"

definition call_started :: "browser \<Rightarrow> vcs" where
  "call_started b =
     run [SocketConnect ''s1'', StartCallClick, UserMediaAnswers 0 Granted] (newVoiceCallSystem b)"

text \<open>
  Start clicked on the page just loaded, the request for the microphone open; and the same
  once the microphone is granted, with the socket still not connected.
\<close>

definition prompted_system :: vcs where
  "prompted_system = run [StartCallClick] idle_system"

definition deferred_system :: vcs where
  "deferred_system = run [StartCallClick, UserMediaAnswers 0 Granted] idle_system"

text \<open>A muted call, and a call on hold.\<close>

definition muted_call :: vcs where
  "muted_call = run [MuteClick] (call_started full_browser)"

definition held_call :: vcs where
  "held_call = run [HoldClick] (call_started full_browser)"

text \<open>A call in which push-to-talk is held down and the recognizer has started.\<close>

definition recording_call :: vcs where
  "recording_call = run [PushToTalkDown, RecognitionStart] (call_started full_browser)"


definition form_with :: "string \<Rightarrow> ingest_form" where
  "form_with t =
     \<lparr>dataInput = t, submitDisabled = False, submitHtml = add_document_html, response = None,
      requests = [], form_timeouts = []\<rparr>"

definition sixty_characters :: string where
  "sixty_characters = ''Stamp 4 holders may work in Ireland without a work permit...''"

section \<open>Properties\<close>

subsection \<open>Ending a call\<close>

text \<open>
  The status lines and the blocks of \<open>endCall\<close> as single updates of the state, and from
  them what \<open>endCall\<close> leaves where the browser has speech synthesis.
\<close>

lemma updateStatus_eq:
  "updateStatus m st s =
     s\<lparr>callStatus := map_option (set_status m
         (if st = ''active'' then ''status-dot bg-green-500'' else ''status-dot bg-slate-500'')) (callStatus s)\<rparr>"
  by (cases "callStatus s") (simp_all add: updateStatus_def)

lemma updateMicStatus_eq:
  "updateMicStatus m c s =
     s\<lparr>micStatus := map_option (set_status (''Microphone: '' @ m)
         (''w-2 h-2 rounded-full '' @ (if c then ''bg-green-500'' else ''bg-red-500''))) (micStatus s)\<rparr>"
  by (cases "micStatus s") (simp_all add: updateMicStatus_def)

lemma stopAllAudio_eq:
  "stopAllAudio s =
     s\<lparr>streams := (case mediaStream s of None \<Rightarrow> streams s
                     | Some h \<Rightarrow> (streams s)[h := stop_tracks (streams s ! h)]),
       mediaStream := None\<rparr>"
  by (cases "mediaStream s") (simp_all add: stopAllAudio_def)

lemma closeAudioContext_eq:
  "closeAudioContext s =
     s\<lparr>audioContexts := (case audioContext s of None \<Rightarrow> audioContexts s
                           | Some c \<Rightarrow> (audioContexts s)[c := (audioContexts s ! c)\<lparr>closed := True\<rparr>]),
       audioContext := None\<rparr>"
  by (cases "audioContext s") (simp_all add: closeAudioContext_def)

lemma cancelVisualizerFrame_eq:
  "cancelVisualizerFrame s =
     s\<lparr>frameRequests := (if truthy_id (visualizerAnimationId s)
                           then removeAll (the (visualizerAnimationId s)) (frameRequests s)
                           else frameRequests s)\<rparr>"
  by (simp add: cancelVisualizerFrame_def)

lemma stopRecognition_eq:
  "stopRecognition s =
     s\<lparr>recognizer := (if recognition s \<and> isRecognizing s \<and> recognizer s = RecRunning
                        then RecStopping else recognizer s)\<rparr>"
  by (simp add: stopRecognition_def recognition_stop_def)

lemma stopTimer_eq:
  "stopTimer s =
     s\<lparr>intervals := (if truthy_id (timerInterval s)
                       then filter (\<lambda>e. fst e \<noteq> the (timerInterval s)) (intervals s)
                       else intervals s)\<rparr>"
  by (simp add: stopTimer_def clearInterval_def)

lemmas endCall_steps =
  updateStatus_eq updateMicStatus_eq stopAllAudio_eq closeAudioContext_eq cancelVisualizerFrame_eq
  stopRecognition_eq stopTimer_eq console_log_def synthesis_cancel_def

lemma endCall_returns:
  assumes "synthesis s = Some q"
  shows "endCall s = Returns (state_of (endCall s))"
  using assms by (simp add: endCall_def endCall_steps Let_def)

lemma endCall_throws:
  assumes "synthesis s = None"
  shows "endCall s = Throws TypeError (state_of (endCall s))"
  using assms by (simp add: endCall_def endCall_steps Let_def)

lemma endCall_flags:
  assumes "synthesis s = Some q"
  shows "isCallActive (state_of (endCall s)) = False"
    and "isMuted (state_of (endCall s)) = False"
    and "isOnHold (state_of (endCall s)) = False"
    and "messageHistory (state_of (endCall s)) = []"
    and "conversationPane (state_of (endCall s)) = []"
    and "callTimerText (state_of (endCall s)) = ''00:00''"
    and "synthesis (state_of (endCall s)) = Some []"
  using assms by (simp_all add: endCall_def endCall_steps Let_def)

lemma endCall_handles:
  assumes "synthesis s = Some q"
  shows "mediaStream (state_of (endCall s)) = None"
    and "audioContext (state_of (endCall s)) = None"
    and "streams (state_of (endCall s)) =
           (case mediaStream s of None \<Rightarrow> streams s
            | Some h \<Rightarrow> (streams s)[h := stop_tracks (streams s ! h)])"
    and "audioContexts (state_of (endCall s)) =
           (case audioContext s of None \<Rightarrow> audioContexts s
            | Some c \<Rightarrow> (audioContexts s)[c := (audioContexts s ! c)\<lparr>closed := True\<rparr>])"
    and "intervals (state_of (endCall s)) =
           (if truthy_id (timerInterval s)
            then filter (\<lambda>e. fst e \<noteq> the (timerInterval s)) (intervals s)
            else intervals s)"
  using assms by (simp_all add: endCall_def endCall_steps Let_def cong: option.case_cong)

text \<open>
  With speech synthesis present, \<open>endCall\<close> returns and leaves the idle state: the call is
  inactive, the tracks of the held stream are ended and its handle dropped, the held
  audio context is closed, no utterance is outstanding, the interval of the timer is
  cleared, the history is empty, and the muted and held flags are reset.
\<close>

lemma endCall_returns_to_idle:
  assumes "synthesis s = Some q"
    and "mediaStream s = Some h" and "h < length (streams s)"
    and "audioContext s = Some c" and "c < length (audioContexts s)"
    and "timerInterval s = Some i" and "i \<noteq> 0"
  shows "\<exists>s'. endCall s = Returns s' \<and> \<not> isCallActive s' \<and>
           mediaStream s' = None \<and> list_all ended (streams s' ! h) \<and>
           audioContext s' = None \<and> closed (audioContexts s' ! c) \<and>
           outstanding s' = [] \<and> i \<notin> fst ` set (intervals s') \<and>
           messageHistory s' = [] \<and> \<not> isMuted s' \<and> \<not> isOnHold s'"
proof -
  have "list_all ended (streams (state_of (endCall s)) ! h)"
    using assms by (simp add: endCall_handles [OF assms(1)] stop_tracks_def list_all_iff)
  moreover have "closed (audioContexts (state_of (endCall s)) ! c)"
    using assms by (simp add: endCall_handles [OF assms(1)])
  moreover have "i \<notin> fst ` set (intervals (state_of (endCall s)))"
    using assms by (auto simp add: endCall_handles [OF assms(1)] truthy_id_def)
  moreover have "outstanding (state_of (endCall s)) = []"
    by (simp add: outstanding_def endCall_flags [OF assms(1)])
  ultimately show ?thesis
    using endCall_returns [OF assms(1)] endCall_flags [OF assms(1)] endCall_handles(1,2) [OF assms(1)]
    by (intro exI [of _ "state_of (endCall s)"]) simp
qed

text \<open>
  Claim C1: from every reachable state in which a call is active, \<open>endCall\<close> returns the
  system to the idle state (tracks stopped and handle cleared, audio context closed,
  synthesis cancelled, timer interval cleared, history empty, muted and held reset).

  The code does not do so in a browser without speech synthesis, a case \<open>speak\<close> and
  \<open>loadVoices\<close> test for and \<open>endCall\<close> does not. There a call can be started; when it is
  ended, \<open>this.synthesis.cancel()\<close> throws a \<open>TypeError\<close> out of the click handler, and what
  follows it in \<open>endCall\<close> does not run: the interval of the timer (the handle 2, after the
  keep-alive interval of the socket) stays registered, the
  history and the conversation pane keep the welcome message, and the view of the active
  call stays on the page.
\<close>

theorem endCall_throws_without_speech_synthesis:
  "isCallActive (call_started no_synthesis_browser) \<and>
   fire EndCallClick (call_started no_synthesis_browser) =
     Throws TypeError (state_of (fire EndCallClick (call_started no_synthesis_browser))) \<and>
   timerInterval (state_of (fire EndCallClick (call_started no_synthesis_browser))) = Some 2 \<and>
   intervals (state_of (fire EndCallClick (call_started no_synthesis_browser))) =
     [(1, 30000, CbKeepAlive), (2, 1000, CbTimerTick)] \<and>
   length (messageHistory (state_of (fire EndCallClick (call_started no_synthesis_browser)))) = 1 \<and>
   length (conversationPane (state_of (fire EndCallClick (call_started no_synthesis_browser)))) = 1 \<and>
   activeCallStateHidden (state_of (fire EndCallClick (call_started no_synthesis_browser))) = False \<and>
   isCallActive (state_of (fire EndCallClick (call_started no_synthesis_browser))) = False \<and>
   mediaStream (state_of (fire EndCallClick (call_started no_synthesis_browser))) = None"
  by code_simp

subsection \<open>One media stream, one recognition turn\<close>

text \<open>What \<open>startCall\<close> comes to in each case, and the fields its parts leave alone.\<close>

lemma startCall_held:
  assumes "mediaStream s = Some h"
  shows "startCall s = startCall_checked (console_log ''Starting call...'' s)"
  using assms by (simp add: startCall_def console_log_def Let_def)

lemma startCall_not_held:
  assumes "mediaStream s = None"
  shows "startCall s =
           s\<lparr>console := console s @
                  [(LLog, ''Starting call...''), (LLog, ''Requesting microphone permission...'')],
             permissionModalHidden := False,
             pendingUserMedia := pendingUserMedia s @ [AwaitingStartCall]\<rparr>"
  using assms by (simp add: startCall_def requestMicrophonePermission_def console_log_def Let_def)

lemma startCall_resumed_cases:
  "startCall_resumed Granted s = startCall_checked (snd (requestMicrophonePermission_resumed Granted s))"
  "startCall_resumed Denied s = snd (requestMicrophonePermission_resumed Denied s)"
  by (simp_all add: startCall_resumed_def requestMicrophonePermission_resumed_def Let_def)

lemma userMediaAnswers_startCall:
  assumes "n < length (pendingUserMedia s)" and "pendingUserMedia s ! n = AwaitingStartCall"
  shows "userMediaAnswers n g s =
           startCall_resumed g
             (s\<lparr>pendingUserMedia := take n (pendingUserMedia s) @ drop (Suc n) (pendingUserMedia s)\<rparr>)"
  using assms by (simp add: userMediaAnswers_def Let_def)

lemma setupAudioVisualization_frame:
  "isConnected (setupAudioVisualization n s) = isConnected s"
  "isCallActive (setupAudioVisualization n s) = isCallActive s"
  "timeouts (setupAudioVisualization n s) = timeouts s"
  "messageHistory (setupAudioVisualization n s) = messageHistory s"
  "intervals (setupAudioVisualization n s) = intervals s"
  "clock (setupAudioVisualization n s) = clock s"
  "mediaStream (setupAudioVisualization n s) = mediaStream s"
  "streams (setupAudioVisualization n s) = streams s"
  by (simp_all add: setupAudioVisualization_def visualizeAudio_def draw_def console_log_def console_error_def)

lemma requestMicrophonePermission_Granted_frame:
  "isConnected (snd (requestMicrophonePermission_resumed Granted s)) = isConnected s"
  "isCallActive (snd (requestMicrophonePermission_resumed Granted s)) = isCallActive s"
  "timeouts (snd (requestMicrophonePermission_resumed Granted s)) = timeouts s"
  "messageHistory (snd (requestMicrophonePermission_resumed Granted s)) = messageHistory s"
  "intervals (snd (requestMicrophonePermission_resumed Granted s)) = intervals s"
  "clock (snd (requestMicrophonePermission_resumed Granted s)) = clock s"
  "mediaStream (snd (requestMicrophonePermission_resumed Granted s)) = Some (length (streams s))"
  "streams (snd (requestMicrophonePermission_resumed Granted s)) = streams s @ [[live_track]]"
  by (simp_all add: requestMicrophonePermission_resumed_def setupAudioVisualization_frame
      updateMicStatus_eq console_log_def Let_def)

lemma requestMicrophonePermission_Denied_frame:
  "isCallActive (snd (requestMicrophonePermission_resumed Denied s)) = isCallActive s"
  "timeouts (snd (requestMicrophonePermission_resumed Denied s)) = timeouts s @ [(100, CbScroll)]"
  "intervals (snd (requestMicrophonePermission_resumed Denied s)) = intervals s"
  "mediaStream (snd (requestMicrophonePermission_resumed Denied s)) = mediaStream s"
  "streams (snd (requestMicrophonePermission_resumed Denied s)) = streams s"
  by (simp_all add: requestMicrophonePermission_resumed_def updateMicStatus_eq addMessage_def
      setTimeout_def console_log_def console_error_def Let_def)

lemma startCall_checked_deferred:
  assumes "\<not> isConnected s"
  shows "timeouts (startCall_checked s) = timeouts s @ [(100, CbScroll), (2000, CbStartCall)]"
    and "messageHistory (startCall_checked s) = messageHistory s @
           [\<lparr>msg_role = ''assistant'', msg_text = ''Connecting to server... Please wait.'',
             msg_time = clock s\<rparr>]"
    and "isCallActive (startCall_checked s) = isCallActive s"
    and "intervals (startCall_checked s) = intervals s"
    and "streams (startCall_checked s) = streams s"
    and "mediaStream (startCall_checked s) = mediaStream s"
    and "pendingUserMedia (startCall_checked s) = pendingUserMedia s"
  using assms by (simp_all add: startCall_checked_def addMessage_def setTimeout_def)

lemma startCall_checked_connected:
  assumes "isConnected s"
  shows "isCallActive (startCall_checked s)"
    and "callStartTime (startCall_checked s) = Some (clock s)"
    and "streams (startCall_checked s) = streams s"
    and "mediaStream (startCall_checked s) = mediaStream s"
    and "pendingUserMedia (startCall_checked s) = pendingUserMedia s"
  using assms
  by (simp_all add: startCall_checked_def addMessage_def setTimeout_def setInterval_def startTimer_def
      updateStatus_eq console_log_def Let_def)

text \<open>
  The two guards: \<open>startCall\<close> asks for no stream while one is held, and \<open>startRecording\<close>
  neither starts the recognizer nor schedules a retry while a recording is in progress.
\<close>

lemma startCall_keeps_held_stream:
  assumes "mediaStream s = Some h"
  shows "streams (startCall s) = streams s \<and> mediaStream (startCall s) = Some h \<and>
         pendingUserMedia (startCall s) = pendingUserMedia s"
proof (cases "isConnected s")
  case True
  then have "isConnected (console_log ''Starting call...'' s)" by (simp add: console_log_def)
  from startCall_checked_connected(3-5) [OF this] assms show ?thesis
    by (simp add: startCall_held [OF assms] console_log_def)
next
  case False
  then have "\<not> isConnected (console_log ''Starting call...'' s)" by (simp add: console_log_def)
  from startCall_checked_deferred(5-7) [OF this] assms show ?thesis
    by (simp add: startCall_held [OF assms] console_log_def)
qed

lemma startRecording_while_recording:
  assumes "isRecording s"
  shows "recognizer (startRecording s) = recognizer s \<and> timeouts (startRecording s) = timeouts s"
  using assms by (simp add: startRecording_def console_log_def)

text \<open>
  Claim C2: in every reachable state there is at most one active media stream and at most
  one recognition turn in flight; \<open>startCall\<close> acquires a stream only when none is held
  and \<open>startRecording\<close> does not start or queue a second turn while one is in progress.

  The two guards hold (above), the invariant on media streams does not. \<open>startCall\<close> shows
  the permission modal and never hides it, and the handler of the modal's grant button
  calls \<open>requestMicrophonePermission\<close> without the test \<open>startCall\<close> makes: after a call
  has started with the stream 0, a click on the button, once \<open>getUserMedia\<close> has answered
  it, has acquired the stream 1 and overwritten the handle, with the tracks of stream 0
  still live. \<open>endCall\<close> then stops stream 1 only: the handle is cleared and one stream
  still holds the microphone.
\<close>

theorem grant_click_acquires_second_stream:
  "permissionModalHidden (call_started full_browser) = False \<and>
   mediaStream (call_started full_browser) = Some 0 \<and>
   live_streams (call_started full_browser) = 1 \<and>
   mediaStream (run [GrantPermissionClick, UserMediaAnswers 0 Granted] (call_started full_browser)) = Some 1 \<and>
   live_streams (run [GrantPermissionClick, UserMediaAnswers 0 Granted] (call_started full_browser)) = 2 \<and>
   mediaStream (run [GrantPermissionClick, UserMediaAnswers 0 Granted, EndCallClick]
     (call_started full_browser)) = None \<and>
   live_streams (run [GrantPermissionClick, UserMediaAnswers 0 Granted, EndCallClick]
     (call_started full_browser)) = 1"
  by code_simp

subsection \<open>Push-to-talk that starts nothing\<close>

text \<open>
  Claim C3: when the call is inactive, or muted, or on hold, or a recording is already in
  progress, pressing push-to-talk is a no-op: the handler returns, and the state it leaves
  differs from the one it found by a line on the console only, so no recognition turn is
  started, no field of the system changes and no exception escapes.
\<close>

theorem push_to_talk_ignored:
  assumes "\<not> isCallActive s \<or> isMuted s \<or> isOnHold s \<or> isRecording s"
  shows "fire PushToTalkDown s = Returns (s\<lparr>console := console s @ [(LLog, ''Cannot start recording'')]\<rparr>)"
  using assms by (auto simp add: fire_def startRecording_def console_log_def)

text \<open>
  The claim at the page just loaded (no call), at a muted call, at a call on hold and at a
  call that is recording.
\<close>

theorem push_to_talk_ignored_witness:
  "isCallActive idle_system = False \<and>
   fire PushToTalkDown idle_system =
     Returns (idle_system\<lparr>console := console idle_system @ [(LLog, ''Cannot start recording'')]\<rparr>) \<and>
   isMuted muted_call \<and>
   fire PushToTalkDown muted_call =
     Returns (muted_call\<lparr>console := console muted_call @ [(LLog, ''Cannot start recording'')]\<rparr>) \<and>
   isOnHold held_call \<and>
   fire PushToTalkDown held_call =
     Returns (held_call\<lparr>console := console held_call @ [(LLog, ''Cannot start recording'')]\<rparr>) \<and>
   isRecording recording_call \<and>
   fire PushToTalkDown recording_call =
     Returns (recording_call\<lparr>console := console recording_call @ [(LLog, ''Cannot start recording'')]\<rparr>)"
proof -
  have a: "isCallActive idle_system = False" by code_simp
  have b: "isMuted muted_call" by code_simp
  have c: "isOnHold held_call" by code_simp
  have d: "isRecording recording_call" by code_simp
  from a have a': "\<not> isCallActive idle_system \<or> isMuted idle_system \<or> isOnHold idle_system \<or>
    isRecording idle_system" by simp
  from b have b': "\<not> isCallActive muted_call \<or> isMuted muted_call \<or> isOnHold muted_call \<or>
    isRecording muted_call" by simp
  from c have c': "\<not> isCallActive held_call \<or> isMuted held_call \<or> isOnHold held_call \<or>
    isRecording held_call" by simp
  from d have d': "\<not> isCallActive recording_call \<or> isMuted recording_call \<or> isOnHold recording_call \<or>
    isRecording recording_call" by simp
  from push_to_talk_ignored [OF a'] push_to_talk_ignored [OF b'] push_to_talk_ignored [OF c']
    push_to_talk_ignored [OF d'] a b c d
  show ?thesis by simp
qed

subsection \<open>The recognition error no-speech\<close>

text \<open>
  Claim C4 says that a \<open>no-speech\<close> error leaves every call-state field unchanged, the
  recording flag included. The handler ends with \<open>stopRecordingUI\<close> whatever the error is:
  in a call that is recording, the flag is true before the error and false after it.
\<close>

theorem no_speech_error_changes_recording_flag:
  "isRecording recording_call \<and>
   isRecording (state_of (fire (RecognitionError ''no-speech'') recording_call)) = False"
  by code_simp

text \<open>
  Claim C4, amended: a \<open>no-speech\<close> error is logged (the error, then ``No speech
  detected''), appends no message and shows no modal, and leaves the state as it was but
  for what \<open>stopRecordingUI\<close> does: the recording flag is reset, the speaking indicator is
  hidden and the push-to-talk button loses its \<open>recording\<close> class.
\<close>

theorem no_speech_error_resets_recording:
  "fire (RecognitionError ''no-speech'') s =
     Returns (s\<lparr>console := console s @
                   [(LError, ''Speech recognition error: no-speech''), (LLog, ''No speech detected'')],
                isRecording := False, speakingIndicatorHidden := True, pushToTalkRecording := False\<rparr>)"
  by (simp add: fire_def recognition_onerror_def stopRecordingUI_def console_log_def console_error_def)

text \<open>The amended claim at a call that is recording.\<close>

theorem no_speech_error_resets_recording_witness:
  "isRecording (state_of (fire (RecognitionError ''no-speech'') recording_call)) = False \<and>
   messageHistory (state_of (fire (RecognitionError ''no-speech'') recording_call)) =
     messageHistory recording_call \<and>
   permissionModalHidden (state_of (fire (RecognitionError ''no-speech'') recording_call)) =
     permissionModalHidden recording_call \<and>
   isCallActive (state_of (fire (RecognitionError ''no-speech'') recording_call)) =
     isCallActive recording_call"
  using no_speech_error_resets_recording [of recording_call] by simp

subsection \<open>The latest utterance supersedes\<close>

lemma outstanding_speak:
  "outstanding (speak t s) =
     (if synthesis s = None \<or> js_trim (cleanText t) = [] then [] else [make_utterance (cleanText t) s])"
  by (auto simp add: outstanding_def speak_def synthesis_cancel_def synthesis_speak_def console_log_def
      console_error_def make_utterance_def Let_def split: option.splits)

lemma speak_frame:
  "voiceSettings (speak t s) = voiceSettings s"
  "voices (speak t s) = voices s"
  "(synthesis (speak t s) = None) = (synthesis s = None)"
  by (auto simp add: speak_def synthesis_cancel_def synthesis_speak_def console_log_def
      console_error_def Let_def split: option.splits)

lemma fold_speak_frame:
  "voiceSettings (fold speak ts s) = voiceSettings s \<and> voices (fold speak ts s) = voices s \<and>
   (synthesis (fold speak ts s) = None) = (synthesis s = None)"
  by (induction ts arbitrary: s) (simp_all add: speak_frame)

text \<open>
  Claim C5: \<open>speak\<close> cancels what the synthesizer holds before it enqueues, so that after
  a call of \<open>speak\<close>, and after any sequence of calls, the only utterance outstanding is
  the one of the latest call (none when its cleaned text is blank, or when the browser
  has no synthesizer): never more than one.
\<close>

theorem speak_supersedes_previous:
  "outstanding (speak t s) =
     (if synthesis s = None \<or> js_trim (cleanText t) = [] then [] else [make_utterance (cleanText t) s]) \<and>
   outstanding (fold speak (ts @ [t]) s) =
     (if synthesis s = None \<or> js_trim (cleanText t) = [] then [] else [make_utterance (cleanText t) s]) \<and>
   length (outstanding (fold speak (ts @ [t]) s)) \<le> 1"
proof -
  have "make_utterance x (fold speak ts s) = make_utterance x s" for x
    by (simp add: make_utterance_def fold_speak_frame)
  then have "outstanding (fold speak (ts @ [t]) s) =
     (if synthesis s = None \<or> js_trim (cleanText t) = [] then [] else [make_utterance (cleanText t) s])"
    by (simp add: outstanding_speak fold_speak_frame)
  then show ?thesis by (simp add: outstanding_speak)
qed

text \<open>Three calls in a row during a call: only the last text is outstanding, cleaned of its markup.\<close>

theorem speak_supersedes_previous_witness:
  "map u_text (outstanding (fold speak ([''Hello'', ''How are you?''] @ [''<b>Hi</b> **there**''])
     (call_started full_browser))) = [''Hi there'']"
proof -
  have a: "synthesis (call_started full_browser) = Some []" by code_simp
  have b: "cleanText ''<b>Hi</b> **there**'' = ''Hi there''" by code_simp
  have c: "js_trim ''Hi there'' = ''Hi there''" by code_simp
  from speak_supersedes_previous [of "''<b>Hi</b> **there**''" "call_started full_browser"
      "[''Hello'', ''How are you?'']"]
  have "outstanding (fold speak ([''Hello'', ''How are you?''] @ [''<b>Hi</b> **there**''])
     (call_started full_browser)) = [make_utterance ''Hi there'' (call_started full_browser)]"
    by (simp only: a b c) simp
  then show ?thesis by (simp only: make_utterance_def) simp
qed

subsection \<open>Starting a call before the socket is connected\<close>

text \<open>
  Claim C6 says that every \<open>startCall\<close> made while the transport is not connected defers,
  schedules a retry and leaves the call inactive until a retry finds the transport
  connected. The microphone comes first, and the transport is looked at only when the
  microphone is settled. On the page just loaded, with the socket not connected, a
  \<open>startCall\<close> whose microphone request is refused ends with the scroll of its message as
  the only timeout: no retry is scheduled. And when the socket connects while the request
  for the microphone is open, the call is active as soon as the microphone is granted,
  with no retry scheduled.
\<close>

theorem startCall_denied_schedules_no_retry:
  "isConnected idle_system = False \<and>
   isConnected (run [StartCallClick, UserMediaAnswers 0 Denied] idle_system) = False \<and>
   timeouts (run [StartCallClick, UserMediaAnswers 0 Denied] idle_system) = [(100, CbScroll)] \<and>
   pendingUserMedia (run [StartCallClick, UserMediaAnswers 0 Denied] idle_system) = [] \<and>
   isCallActive (run [StartCallClick, UserMediaAnswers 0 Denied] idle_system) = False \<and>
   isCallActive (run [StartCallClick, SocketConnect ''s1'', UserMediaAnswers 0 Granted] idle_system) \<and>
   timeouts (run [StartCallClick, SocketConnect ''s1'', UserMediaAnswers 0 Granted] idle_system) =
     [(100, CbScroll), (500, CbSpeak welcome_text)]"
  by code_simp

text \<open>
  Claim C6, amended. \<open>startCall\<close> looks at the transport when the microphone is settled:
  at once when a stream is held, and otherwise when \<open>getUserMedia\<close> has answered; until
  then it only shows the modal and waits, with nothing scheduled and the call-active flag
  as it was. If the transport is not connected at that moment and a stream is held or has
  been granted, the call is not activated: the message ``Connecting to server... Please
  wait.'' is appended, a retry of \<open>startCall\<close> is scheduled after 2000 ms, no timer is
  started and the call-active flag is left as it was. If the transport is connected at
  that moment, the call is activated. If the microphone is refused, no retry is scheduled
  and the flag is left as it was, whatever the transport.
\<close>

theorem startCall_defers_until_connected:
  "(mediaStream s = None \<longrightarrow>
      startCall s =
        s\<lparr>console := console s @
               [(LLog, ''Starting call...''), (LLog, ''Requesting microphone permission...'')],
          permissionModalHidden := False,
          pendingUserMedia := pendingUserMedia s @ [AwaitingStartCall]\<rparr>) \<and>
   (mediaStream s \<noteq> None \<and> \<not> isConnected s \<longrightarrow>
      timeouts (startCall s) = timeouts s @ [(100, CbScroll), (2000, CbStartCall)] \<and>
      messageHistory (startCall s) = messageHistory s @
        [\<lparr>msg_role = ''assistant'', msg_text = ''Connecting to server... Please wait.'', msg_time = clock s\<rparr>] \<and>
      isCallActive (startCall s) = isCallActive s \<and>
      intervals (startCall s) = intervals s) \<and>
   (n < length (pendingUserMedia s) \<and> pendingUserMedia s ! n = AwaitingStartCall \<and> \<not> isConnected s \<longrightarrow>
      timeouts (userMediaAnswers n Granted s) = timeouts s @ [(100, CbScroll), (2000, CbStartCall)] \<and>
      messageHistory (userMediaAnswers n Granted s) = messageHistory s @
        [\<lparr>msg_role = ''assistant'', msg_text = ''Connecting to server... Please wait.'', msg_time = clock s\<rparr>] \<and>
      isCallActive (userMediaAnswers n Granted s) = isCallActive s \<and>
      intervals (userMediaAnswers n Granted s) = intervals s) \<and>
   (mediaStream s \<noteq> None \<and> isConnected s \<longrightarrow> isCallActive (startCall s)) \<and>
   (n < length (pendingUserMedia s) \<and> pendingUserMedia s ! n = AwaitingStartCall \<and> isConnected s \<longrightarrow>
      isCallActive (userMediaAnswers n Granted s)) \<and>
   (n < length (pendingUserMedia s) \<and> pendingUserMedia s ! n = AwaitingStartCall \<longrightarrow>
      timeouts (userMediaAnswers n Denied s) = timeouts s @ [(100, CbScroll)] \<and>
      isCallActive (userMediaAnswers n Denied s) = isCallActive s \<and>
      intervals (userMediaAnswers n Denied s) = intervals s)"
proof -
  let ?s0 = "console_log ''Starting call...'' s"
  let ?s1 = "s\<lparr>pendingUserMedia := take n (pendingUserMedia s) @ drop (Suc n) (pendingUserMedia s)\<rparr>"
  let ?s2 = "snd (requestMicrophonePermission_resumed Granted ?s1)"
  have held_deferred:
    "timeouts (startCall s) = timeouts s @ [(100, CbScroll), (2000, CbStartCall)] \<and>
     messageHistory (startCall s) = messageHistory s @
       [\<lparr>msg_role = ''assistant'', msg_text = ''Connecting to server... Please wait.'', msg_time = clock s\<rparr>] \<and>
     isCallActive (startCall s) = isCallActive s \<and>
     intervals (startCall s) = intervals s"
    if h: "mediaStream s \<noteq> None" and c: "\<not> isConnected s"
  proof -
    from h obtain k where k: "mediaStream s = Some k" by auto
    from c have "\<not> isConnected ?s0" by (simp add: console_log_def)
    from startCall_checked_deferred(1-4) [OF this] show ?thesis
      by (simp add: startCall_held [OF k] console_log_def)
  qed
  have held_connected: "isCallActive (startCall s)"
    if h: "mediaStream s \<noteq> None" and c: "isConnected s"
  proof -
    from h obtain k where k: "mediaStream s = Some k" by auto
    from c have "isConnected ?s0" by (simp add: console_log_def)
    from startCall_checked_connected(1) [OF this] show ?thesis
      by (simp add: startCall_held [OF k])
  qed
  have answered_deferred:
    "timeouts (userMediaAnswers n Granted s) = timeouts s @ [(100, CbScroll), (2000, CbStartCall)] \<and>
     messageHistory (userMediaAnswers n Granted s) = messageHistory s @
       [\<lparr>msg_role = ''assistant'', msg_text = ''Connecting to server... Please wait.'', msg_time = clock s\<rparr>] \<and>
     isCallActive (userMediaAnswers n Granted s) = isCallActive s \<and>
     intervals (userMediaAnswers n Granted s) = intervals s"
    if p: "n < length (pendingUserMedia s)" "pendingUserMedia s ! n = AwaitingStartCall"
      and c: "\<not> isConnected s"
  proof -
    have eq: "userMediaAnswers n Granted s = startCall_checked ?s2"
      by (simp add: userMediaAnswers_startCall [OF p] startCall_resumed_cases)
    from c have "\<not> isConnected ?s2" by (simp add: requestMicrophonePermission_Granted_frame)
    from startCall_checked_deferred(1-4) [OF this] show ?thesis
      by (simp add: eq requestMicrophonePermission_Granted_frame)
  qed
  have answered_connected: "isCallActive (userMediaAnswers n Granted s)"
    if p: "n < length (pendingUserMedia s)" "pendingUserMedia s ! n = AwaitingStartCall"
      and c: "isConnected s"
  proof -
    have eq: "userMediaAnswers n Granted s = startCall_checked ?s2"
      by (simp add: userMediaAnswers_startCall [OF p] startCall_resumed_cases)
    from c have "isConnected ?s2" by (simp add: requestMicrophonePermission_Granted_frame)
    from startCall_checked_connected(1) [OF this] show ?thesis by (simp add: eq)
  qed
  have refused:
    "timeouts (userMediaAnswers n Denied s) = timeouts s @ [(100, CbScroll)] \<and>
     isCallActive (userMediaAnswers n Denied s) = isCallActive s \<and>
     intervals (userMediaAnswers n Denied s) = intervals s"
    if p: "n < length (pendingUserMedia s)" "pendingUserMedia s ! n = AwaitingStartCall"
  proof -
    have eq: "userMediaAnswers n Denied s = snd (requestMicrophonePermission_resumed Denied ?s1)"
      by (simp add: userMediaAnswers_startCall [OF p] startCall_resumed_cases)
    show ?thesis by (simp add: eq requestMicrophonePermission_Denied_frame)
  qed
  from startCall_not_held held_deferred held_connected answered_deferred answered_connected refused
  show ?thesis by blast
qed

text \<open>
  The amended claim along two courses of the page just loaded. The socket is not connected:
  Start is clicked and \<open>startCall\<close> waits for the microphone; the microphone is granted and
  the retry is scheduled; the retry, a \<open>startCall\<close> with the stream held, defers again as long
  as the socket is not connected and activates the call once it is. And: the socket
  connects while \<open>startCall\<close> waits, and the call is active when the microphone is granted;
  or the microphone is refused, and nothing is scheduled but the scroll. The retry that
  fires before the socket has connected leaves the call inactive, the one that fires after
  it activates the call.
\<close>

theorem startCall_defers_until_connected_witness:
  "isConnected idle_system = False \<and> mediaStream idle_system = None \<and>
   pendingUserMedia (startCall idle_system) = [AwaitingStartCall] \<and>
   timeouts (startCall idle_system) = [] \<and>
   timeouts (userMediaAnswers 0 Granted prompted_system) = [(100, CbScroll), (2000, CbStartCall)] \<and>
   isCallActive (userMediaAnswers 0 Granted prompted_system) = False \<and>
   timeouts (startCall deferred_system) =
     [(100, CbScroll), (2000, CbStartCall), (100, CbScroll), (2000, CbStartCall)] \<and>
   isCallActive (startCall deferred_system) = False \<and>
   isCallActive (startCall (run [SocketConnect ''s1''] deferred_system)) \<and>
   isCallActive (userMediaAnswers 0 Granted (run [SocketConnect ''s1''] prompted_system)) \<and>
   timeouts (userMediaAnswers 0 Denied prompted_system) = [(100, CbScroll)] \<and>
   isCallActive (run [TimeoutFires 1] deferred_system) = False \<and>
   isCallActive (run [SocketConnect ''s1'', TimeoutFires 1] deferred_system)"
proof -
  have a: "isConnected idle_system = False" "mediaStream idle_system = None"
    "timeouts idle_system = []" "pendingUserMedia idle_system = []"
    by code_simp+
  have b: "isConnected prompted_system = False" "pendingUserMedia prompted_system = [AwaitingStartCall]"
    "timeouts prompted_system = []" "isCallActive prompted_system = False"
    by code_simp+
  have c: "isConnected deferred_system = False" "mediaStream deferred_system = Some 0"
    "timeouts deferred_system = [(100, CbScroll), (2000, CbStartCall)]"
    "isCallActive deferred_system = False"
    by code_simp+
  have d: "isConnected (run [SocketConnect ''s1''] deferred_system)"
    "mediaStream (run [SocketConnect ''s1''] deferred_system) = Some 0"
    by code_simp+
  have e: "isConnected (run [SocketConnect ''s1''] prompted_system)"
    "pendingUserMedia (run [SocketConnect ''s1''] prompted_system) = [AwaitingStartCall]"
    by code_simp+
  have 1: "pendingUserMedia (startCall idle_system) = [AwaitingStartCall] \<and> timeouts (startCall idle_system) = []"
    using startCall_defers_until_connected [of idle_system 0] by (simp add: a)
  have 2: "timeouts (userMediaAnswers 0 Granted prompted_system) = [(100, CbScroll), (2000, CbStartCall)] \<and>
           isCallActive (userMediaAnswers 0 Granted prompted_system) = False \<and>
           timeouts (userMediaAnswers 0 Denied prompted_system) = [(100, CbScroll)]"
    using startCall_defers_until_connected [of prompted_system 0] by (simp add: b)
  have 3: "timeouts (startCall deferred_system) =
             [(100, CbScroll), (2000, CbStartCall), (100, CbScroll), (2000, CbStartCall)] \<and>
           isCallActive (startCall deferred_system) = False"
    using startCall_defers_until_connected [of deferred_system 0] by (simp add: c)
  have 4: "isCallActive (startCall (run [SocketConnect ''s1''] deferred_system))"
    using startCall_defers_until_connected [of "run [SocketConnect ''s1''] deferred_system" 0]
    by (simp only: d) simp
  have 5: "isCallActive (userMediaAnswers 0 Granted (run [SocketConnect ''s1''] prompted_system))"
    using startCall_defers_until_connected [of "run [SocketConnect ''s1''] prompted_system" 0]
    by (simp only: e) simp
  have 6: "isCallActive (run [TimeoutFires 1] deferred_system) = False"
    "isCallActive (run [SocketConnect ''s1'', TimeoutFires 1] deferred_system)"
    by code_simp+
  from a(1,2) 1 2 3 4 5 6 show ?thesis by (simp only: simp_thms)
qed

subsection \<open>The ingestion form\<close>

text \<open>
  Claim C7: a submission whose trimmed input is not empty and shorter than 50 characters
  is rejected on the page: the ``too short'' error is shown, nothing else changes, and no
  request is sent.
\<close>

theorem short_document_rejected:
  assumes "js_trim (dataInput f) \<noteq> []" and "length (js_trim (dataInput f)) < 50"
  shows "submit r f =
           f\<lparr>response := Some \<lparr>alert_class = ''bg-red-500/10 border-red-500/30 text-red-400'',
                                 alert_icon = ''alert-circle'', alert_text = too_short_message\<rparr>\<rparr> \<and>
         requests (submit r f) = requests f"
  using assms by (simp add: submit_def showMessage_def Let_def)

text \<open>The claim at an input of 10 characters and at the input \<open>data\<close>.\<close>

theorem short_document_rejected_witness:
  "length (js_trim (dataInput (form_with ''0123456789''))) = 10 \<and>
   map_option alert_text (response (submit (Rejected []) (form_with ''0123456789''))) = Some too_short_message \<and>
   requests (submit (Rejected []) (form_with ''0123456789'')) = [] \<and>
   map_option alert_text (response (submit (Rejected []) (form_with ''data''))) = Some too_short_message \<and>
   requests (submit (Rejected []) (form_with ''data'')) = []"
proof -
  have a: "js_trim (dataInput (form_with ''0123456789'')) = ''0123456789''" by code_simp
  have b: "js_trim (dataInput (form_with ''data'')) = ''data''" by code_simp
  have c: "requests (form_with ''0123456789'') = []" "requests (form_with ''data'') = []"
    by (simp_all add: form_with_def)
  from short_document_rejected [of "form_with ''0123456789''" "Rejected []"]
    short_document_rejected [of "form_with ''data''" "Rejected []"]
  show ?thesis by (simp add: a b c)
qed

text \<open>
  Claim C8: a submission that passes the validation sends one request and, whatever comes
  back (a success, an error of the backend, a rejected request), ends with the submit
  button enabled and labelled again.
\<close>

theorem submit_button_reenabled:
  assumes "50 \<le> length (js_trim (dataInput f))"
  shows "submitDisabled (submit r f) = False \<and> submitHtml (submit r f) = add_document_html \<and>
         length (requests (submit r f)) = Suc (length (requests f))"
proof -
  have "js_trim (dataInput f) \<noteq> []" using assms by auto
  moreover have "requests (submit_try r g) = requests g" for g
    by (cases r) (simp_all add: submit_try_def showMessage_def Let_def)
  ultimately show ?thesis using assms by (simp add: submit_def Let_def)
qed

text \<open>The claim at an input of 60 characters, on the three ways the request can end.\<close>

theorem submit_button_reenabled_witness:
  "length (js_trim (dataInput (form_with sixty_characters))) = 60 \<and>
   submitDisabled (submit (Responded True \<lparr>nodes_added = Some 3, error = None\<rparr>) (form_with sixty_characters)) = False \<and>
   submitDisabled (submit (Responded False \<lparr>nodes_added = None, error = Some ''Index not ready''\<rparr>)
     (form_with sixty_characters)) = False \<and>
   submitDisabled (submit (Rejected ''Failed to fetch'') (form_with sixty_characters)) = False"
proof -
  have a: "length (js_trim (dataInput (form_with sixty_characters))) = 60" by code_simp
  then have b: "50 \<le> length (js_trim (dataInput (form_with sixty_characters)))" by simp
  from submit_button_reenabled [OF b] a show ?thesis by simp
qed

subsection \<open>The timer\<close>










subsection \<open>Blank transcripts\<close>

lemma js_trim_blank:
  assumes "\<forall>c \<in> set t. is_js_space c"
  shows "js_trim t = []"
proof -
  have h: "dropWhile is_js_space t = []"
    using assms by (induction t) simp_all
  show ?thesis by (simp only: js_trim_def h rev.simps dropWhile.simps)
qed

text \<open>
  Claim C10: a transcript that is empty or made of white space only is dropped by
  \<open>handleSpeechInput\<close>: a line goes to the console and nothing else changes, so no message
  is appended to the history or shown in the pane, and nothing is emitted on the socket.
\<close>

theorem blank_transcript_discarded:
  assumes "\<forall>c \<in> set t. is_js_space c"
  shows "handleSpeechInput t s = s\<lparr>console := console s @ [(LLog, ''Empty speech input'')]\<rparr> \<and>
         messageHistory (handleSpeechInput t s) = messageHistory s \<and>
         conversationPane (handleSpeechInput t s) = conversationPane s \<and>
         emitted (handleSpeechInput t s) = emitted s"
  using js_trim_blank [OF assms] by (simp add: handleSpeechInput_def console_log_def)

text \<open>The claim at the empty transcript and at a space, a tab and a line feed, during a call.\<close>

theorem blank_transcript_discarded_witness:
  "is_js_space (CHR 0x20) \<and> is_js_space (CHR 0x09) \<and> is_js_space (CHR 0x0A) \<and>
   handleSpeechInput [CHR 0x20, CHR 0x09, CHR 0x0A] recording_call =
     recording_call\<lparr>console := console recording_call @ [(LLog, ''Empty speech input'')]\<rparr> \<and>
   handleSpeechInput [] recording_call =
     recording_call\<lparr>console := console recording_call @ [(LLog, ''Empty speech input'')]\<rparr> \<and>
   emitted (handleSpeechInput [CHR 0x20, CHR 0x09, CHR 0x0A] recording_call) = emitted recording_call"
proof -
  have a: "is_js_space (CHR 0x20) \<and> is_js_space (CHR 0x09) \<and> is_js_space (CHR 0x0A)"
    by (simp add: is_js_space_def)
  then have b: "\<forall>c \<in> set [CHR 0x20, CHR 0x09, CHR 0x0A]. is_js_space c" by simp
  have c: "\<forall>c \<in> set ([] :: string). is_js_space c" by simp
  from blank_transcript_discarded [OF b, of recording_call]
    blank_transcript_discarded [OF c, of recording_call] a
  show ?thesis by simp
qed

end
